theory Spec2Isabelle
  imports Complex_Main "HOL-Library.AList"
begin

section \<open>Data model\<close>

text \<open>
  The pipeline passes articles around as Python dictionaries from field names to values.
  Following the RawArticle data model, a field value is a string or \<open>None\<close>. A
  dictionary is an association list in insertion order, the order Python dictionaries keep
  and \<open>json.dump\<close> writes; \<open>AList.update\<close> is Python's \<open>d[k] = v\<close>: it overwrites
  the value of a key that is present and appends a key that is not. Characters are the
  code points below 256.
\<close>

datatype pyval = PyNone | PyStr string

type_synonym article = "(string \<times> pyval) list"

datatype exn = TypeError string | AttributeError string | RequestError string
  | HTTPStatusError string | RuntimeError string

fun exn_str :: "exn \<Rightarrow> string" where
  "exn_str (TypeError m) = m"
| "exn_str (AttributeError m) = m"
| "exn_str (RequestError m) = m"
| "exn_str (HTTPStatusError m) = m"
| "exn_str (RuntimeError m) = m"

text \<open>The message of the \<open>TypeError\<close> that slicing \<open>None\<close> raises.\<close>

definition not_subscriptable :: string where
  "not_subscriptable = [CHR 0x27] @ ''NoneType'' @ [CHR 0x27] @ '' object is not subscriptable''"

text \<open>\<open>d.get(k)\<close> and \<open>d.get(k, default)\<close>.\<close>

definition dict_get :: "article \<Rightarrow> string \<Rightarrow> pyval" where
  "dict_get d k = (case map_of d k of None \<Rightarrow> PyNone | Some v \<Rightarrow> v)"

definition dict_get_default :: "article \<Rightarrow> string \<Rightarrow> string \<Rightarrow> pyval" where
  "dict_get_default d k dflt = (case map_of d k of None \<Rightarrow> PyStr dflt | Some v \<Rightarrow> v)"

text \<open>Truth value of a field, as \<open>if v\<close> and \<open>not v\<close> test it.\<close>

fun truthy :: "pyval \<Rightarrow> bool" where
  "truthy PyNone = False"
| "truthy (PyStr s) = (s \<noteq> [])"

text \<open>What an f-string writes for a value.\<close>

fun py_format :: "pyval \<Rightarrow> string" where
  "py_format PyNone = ''None''"
| "py_format (PyStr s) = s"

section \<open>Article filter (data_processor.py)\<close>

text \<open>
  One iteration of the loop of \<open>filter_articles\<close> on the state
  \<open>(filtered_list, seen_urls)\<close>. The debug message of the content check slices the
  title (\<open>title[:50]\<close>) while the f-string is built, before the logger is called, so a
  title that is \<open>None\<close> raises \<open>TypeError\<close> there.
\<close>

definition filter_step :: "article \<Rightarrow> article list \<times> pyval set \<Rightarrow> exn + article list \<times> pyval set" where
  "filter_step article st =
     (let filtered_list = fst st; seen_urls = snd st;
          title = dict_get article ''title'';
          description = dict_get article ''description'';
          url = dict_get article ''url''
      in if \<not> truthy title \<or> \<not> truthy description then
           (case title of
              PyNone \<Rightarrow> Inl (TypeError not_subscriptable)
            | PyStr t \<Rightarrow> Inr (filtered_list, seen_urls))
         else if url \<in> seen_urls then Inr (filtered_list, seen_urls)
         else Inr (filtered_list @ [article],
                   if truthy url then insert url seen_urls else seen_urls))"

fun filter_loop :: "article list \<Rightarrow> article list \<times> pyval set \<Rightarrow> exn + article list \<times> pyval set" where
  "filter_loop [] st = Inr st"
| "filter_loop (article # articles) st =
     (case filter_step article st of
        Inl e \<Rightarrow> Inl e
      | Inr st' \<Rightarrow> filter_loop articles st')"

definition filter_articles :: "article list \<Rightarrow> exn + article list" where
  "filter_articles articles =
     (case filter_loop articles ([], {}) of
        Inl e \<Rightarrow> Inl e
      | Inr st \<Rightarrow> Inr (fst st))"

text \<open>
  The words of the filter's contract: an article has content when title and description
  are both non-empty; the article at position \<open>i\<close> is retained when it has content and,
  if its url is non-empty, no earlier article with content has the same url.
\<close>

definition has_content :: "article \<Rightarrow> bool" where
  "has_content a = (truthy (dict_get a ''title'') \<and> truthy (dict_get a ''description''))"

definition retained :: "article list \<Rightarrow> nat \<Rightarrow> bool" where
  "retained xs i =
     (has_content (xs ! i) \<and>
      (truthy (dict_get (xs ! i) ''url'') \<longrightarrow>
         (\<forall>j<i. has_content (xs ! j) \<longrightarrow> dict_get (xs ! j) ''url'' \<noteq> dict_get (xs ! i) ''url'')))"

definition seen_after :: "article list \<Rightarrow> pyval set" where
  "seen_after xs =
     {u. truthy u \<and> (\<exists>b\<in>set xs. has_content b \<and> dict_get b ''url'' = u)}"

text \<open>The articles of the unit tests of the filter.\<close>

definition ARTICLE_VALID_1 :: article where
  "ARTICLE_VALID_1 = [(''symbol'', PyStr ''AAPL''), (''title'', PyStr ''Apple Event''),
     (''description'', PyStr ''New iPhones announced.''), (''url'', PyStr ''http://a.com/1'')]"

definition ARTICLE_VALID_2 :: article where
  "ARTICLE_VALID_2 = [(''symbol'', PyStr ''MSFT''), (''title'', PyStr ''MSFT Results''),
     (''description'', PyStr ''Earnings beat expectations.''), (''url'', PyStr ''http://m.com/1'')]"

definition ARTICLE_MISSING_TITLE :: article where
  "ARTICLE_MISSING_TITLE = [(''symbol'', PyStr ''GOOG''), (''title'', PyNone),
     (''description'', PyStr ''Search update.''), (''url'', PyStr ''http://g.com/1'')]"

definition ARTICLE_EMPTY_TITLE :: article where
  "ARTICLE_EMPTY_TITLE = [(''symbol'', PyStr ''AMZN''), (''title'', PyStr []),
     (''description'', PyStr ''Prime Day dates.''), (''url'', PyStr ''http://am.com/1'')]"

definition ARTICLE_MISSING_DESC :: article where
  "ARTICLE_MISSING_DESC = [(''symbol'', PyStr ''TSLA''), (''title'', PyStr ''Tesla Deliveries''),
     (''description'', PyNone), (''url'', PyStr ''http://t.com/1'')]"

definition ARTICLE_EMPTY_DESC :: article where
  "ARTICLE_EMPTY_DESC = [(''symbol'', PyStr ''NVDA''), (''title'', PyStr ''Nvidia Chip''),
     (''description'', PyStr []), (''url'', PyStr ''http://n.com/1'')]"

definition ARTICLE_DUPLICATE_URL :: article where
  "ARTICLE_DUPLICATE_URL = [(''symbol'', PyStr ''AAPL''), (''title'', PyStr ''Apple Event Again''),
     (''description'', PyStr ''Repeated news.''), (''url'', PyStr ''http://a.com/1'')]"

definition ARTICLE_MISSING_URL :: article where
  "ARTICLE_MISSING_URL = [(''symbol'', PyStr ''META''), (''title'', PyStr ''Meta News''),
     (''description'', PyStr ''Social media updates.''), (''url'', PyNone)]"

text \<open>An article without content that carries the url of \<open>ARTICLE_VALID_1\<close>.\<close>

definition ARTICLE_EMPTY_TITLE_SAME_URL :: article where
  "ARTICLE_EMPTY_TITLE_SAME_URL = [(''symbol'', PyStr ''AAPL''), (''title'', PyStr []),
     (''description'', PyStr ''Prime Day dates.''), (''url'', PyStr ''http://a.com/1'')]"

text \<open>An article that has no \<open>title\<close> key at all.\<close>

definition ARTICLE_NO_TITLE_KEY :: article where
  "ARTICLE_NO_TITLE_KEY = [(''symbol'', PyStr ''GOOG''),
     (''description'', PyStr ''Search update.''), (''url'', PyStr ''http://g.com/1'')]"

section \<open>Strings\<close>

text \<open>
  \<open>str.strip()\<close> removes the characters \<open>str.isspace\<close> accepts from both ends; below
  code point 256 these are the twelve listed. \<open>str.capitalize()\<close> puts the first
  character in upper case and the rest in lower case; the case mapping is modelled on the
  ASCII letters and leaves every other character as it is.
\<close>

definition isspace :: "char \<Rightarrow> bool" where
  "isspace c = (c \<in> set [CHR 0x09, CHR 0x0A, CHR 0x0B, CHR 0x0C, CHR 0x0D, CHR 0x1C,
     CHR 0x1D, CHR 0x1E, CHR 0x1F, CHR 0x20, CHR 0x85, CHR 0xA0])"

definition strip :: "string \<Rightarrow> string" where
  "strip s = rev (dropWhile isspace (rev (dropWhile isspace s)))"

definition to_upper :: "char \<Rightarrow> char" where
  "to_upper c = (case map_of (zip ''abcdefghijklmnopqrstuvwxyz'' ''ABCDEFGHIJKLMNOPQRSTUVWXYZ'') c of
     None \<Rightarrow> c | Some u \<Rightarrow> u)"

definition to_lower :: "char \<Rightarrow> char" where
  "to_lower c = (case map_of (zip ''ABCDEFGHIJKLMNOPQRSTUVWXYZ'' ''abcdefghijklmnopqrstuvwxyz'') c of
     None \<Rightarrow> c | Some l \<Rightarrow> l)"

fun capitalize :: "string \<Rightarrow> string" where
  "capitalize [] = []"
| "capitalize (c # cs) = to_upper c # map to_lower cs"

section \<open>Enrichment client (llm_service.py)\<close>

text \<open>
  \<open>LLMService.client\<close> is \<open>None\<close> when no API key is configured; otherwise
  \<open>client.invoke\<close> takes the system and the user prompt and returns the response's
  content or raises. \<open>generate_response\<close> catches every exception of the invocation and
  returns \<open>None\<close>.
\<close>

record llm_service =
  client :: "(string \<Rightarrow> string \<Rightarrow> exn + string) option"

definition generate_response :: "llm_service \<Rightarrow> string \<Rightarrow> string \<Rightarrow> string option" where
  "generate_response svc system_prompt user_prompt =
     (case client svc of
        None \<Rightarrow> None
      | Some invoke \<Rightarrow>
          (case invoke system_prompt user_prompt of
             Inl e \<Rightarrow> None
           | Inr content \<Rightarrow> Some content))"

definition summarize_system_prompt :: string where
  "summarize_system_prompt = ''You are an expert financial analyst assistant. Summarize the key financial information or event described in the following text in one or two concise sentences. Focus on the core news relevant to an investor.''"

definition summarize_user_prompt :: "string \<Rightarrow> string" where
  "summarize_user_prompt txt = ''Text to summarize:'' @ [CHR 0x0A, CHR 0x0A] @ ''```'' @ [CHR 0x0A]
     @ txt @ [CHR 0x0A] @ ''```'' @ [CHR 0x0A, CHR 0x0A] @ ''Concise financial summary:''"

definition sentiment_system_prompt :: string where
  "sentiment_system_prompt = ''You are an expert financial analyst specializing in sentiment analysis. ''
     @ ''Analyze the sentiment of the following financial text (e.g., news headline, description, social media post). ''
     @ ''Consider the potential impact on the stock or market mentioned. ''
     @ ''Respond with only ONE of the following words: Positive, Negative, or Neutral.''"

definition sentiment_user_prompt :: "string \<Rightarrow> string" where
  "sentiment_user_prompt txt = ''Financial text:'' @ [CHR 0x0A, CHR 0x0A] @ ''```'' @ [CHR 0x0A]
     @ txt @ [CHR 0x0A] @ ''```'' @ [CHR 0x0A, CHR 0x0A] @ ''Sentiment (Positive/Negative/Neutral):''"

definition topic_system_prompt :: string where
  "topic_system_prompt = ''You are an expert financial analyst. Read the following financial text and identify the main topic or event being discussed. ''
     @ ''Be specific and concise. Examples: 'Earnings Report', 'Product Launch', 'Executive Appointment', 'Stock Split', 'Macroeconomic Data Release', 'Regulatory Filing', 'Merger/Acquisition'.''
     @ ''Respond with only the topic name.''"

definition topic_user_prompt :: "string \<Rightarrow> string" where
  "topic_user_prompt txt = ''Financial text:'' @ [CHR 0x0A, CHR 0x0A] @ ''```'' @ [CHR 0x0A]
     @ txt @ [CHR 0x0A] @ ''```'' @ [CHR 0x0A, CHR 0x0A] @ ''Main Financial Topic/Event:''"

text \<open>
  The three operations return \<open>Optional[str]\<close>: the value \<open>PyNone\<close> is Python's
  \<open>None\<close>. None of them raises.
\<close>

definition summarize_text :: "llm_service \<Rightarrow> string \<Rightarrow> pyval" where
  "summarize_text svc txt =
     (if client svc = None then PyNone
      else (case generate_response svc summarize_system_prompt (summarize_user_prompt txt) of
              None \<Rightarrow> PyNone
            | Some summary \<Rightarrow> PyStr summary))"

definition sentiment_labels :: "string list" where
  "sentiment_labels = [''Positive'', ''Negative'', ''Neutral'']"

definition analyze_sentiment :: "llm_service \<Rightarrow> string \<Rightarrow> pyval" where
  "analyze_sentiment svc txt =
     (if client svc = None then PyNone
      else (case generate_response svc sentiment_system_prompt (sentiment_user_prompt txt) of
              None \<Rightarrow> PyNone
            | Some sentiment \<Rightarrow>
                if sentiment \<noteq> [] then
                  (let sentiment' = capitalize (strip sentiment)
                   in if sentiment' \<in> set sentiment_labels then PyStr sentiment' else PyNone)
                else PyNone))"

definition extract_topic :: "llm_service \<Rightarrow> string \<Rightarrow> pyval" where
  "extract_topic svc txt =
     (if client svc = None then PyNone
      else (case generate_response svc topic_system_prompt (topic_user_prompt txt) of
              None \<Rightarrow> PyNone
            | Some topic \<Rightarrow> if topic \<noteq> [] then PyStr (strip topic) else PyNone))"

text \<open>Two backends: one whose every invocation raises, one that always answers \<open>Bullish\<close>.\<close>

definition failing_service :: llm_service where
  "failing_service = \<lparr>client = Some (\<lambda>system_prompt user_prompt. Inl (RuntimeError ''503 Service Unavailable''))\<rparr>"

definition bullish_service :: llm_service where
  "bullish_service = \<lparr>client = Some (\<lambda>system_prompt user_prompt. Inr ''Bullish'')\<rparr>"

text \<open>A backend that fails on the summarization request only.\<close>

definition no_summary_service :: llm_service where
  "no_summary_service = \<lparr>client = Some (\<lambda>system_prompt user_prompt.
     if system_prompt = summarize_system_prompt then Inl (RuntimeError ''429 Resource exhausted'')
     else if system_prompt = sentiment_system_prompt then Inr ('' positive'' @ [CHR 0x0A])
     else Inr ''Earnings Report'')\<rparr>"

section \<open>Article enricher (main.py, process_single_article)\<close>

text \<open>
  \<open>process_single_article\<close> awaits the three module-level coroutines
  \<open>summarize_text\<close>, \<open>analyze_sentiment\<close> and \<open>extract_topic\<close> through
  \<open>asyncio.gather(..., return_exceptions=True)\<close>, which hands back either the value a
  coroutine returned or the exception it raised. The model takes the three calls as
  parameters, as the integration test does when it replaces them.
  \<open>merge_field\<close> is the conditional expression of the merge step.
  The statements inside the \<open>try\<close> raise nothing in this model, so the
  \<open>processing_error\<close> branch adds nothing to it.
\<close>

definition merge_field :: "exn + pyval \<Rightarrow> pyval" where
  "merge_field r = (case r of Inl e \<Rightarrow> PyStr (''Error: '' @ exn_str e) | Inr v \<Rightarrow> v)"

definition text_to_process :: "article \<Rightarrow> string" where
  "text_to_process article =
     py_format (dict_get_default article ''title'' []) @ [CHR 0x0A]
       @ py_format (dict_get_default article ''description'' [])"

definition process_single_article ::
  "(string \<Rightarrow> exn + pyval) \<Rightarrow> (string \<Rightarrow> exn + pyval) \<Rightarrow> (string \<Rightarrow> exn + pyval) \<Rightarrow> article \<Rightarrow> article" where
  "process_single_article summarize sentiment_of topic_of article =
     (if strip (text_to_process article) = [] then article
      else
        (let summary = summarize (text_to_process article);
             sentiment = sentiment_of (text_to_process article);
             topic = topic_of (text_to_process article)
         in AList.update ''topic'' (merge_field topic)
              (AList.update ''sentiment'' (merge_field sentiment)
                 (AList.update ''summary'' (merge_field summary) article))))"


text \<open>Three calls as the gather of the enricher may see them: one raised, two returned.\<close>

definition raising_call :: "string \<Rightarrow> exn + pyval" where
  "raising_call t = Inl (RuntimeError ''429 Resource exhausted'')"

definition positive_call :: "string \<Rightarrow> exn + pyval" where
  "positive_call t = Inr (PyStr ''Positive'')"

definition earnings_call :: "string \<Rightarrow> exn + pyval" where
  "earnings_call t = Inr (PyStr ''Earnings Beat'')"

definition raw_keys :: "string list" where
  "raw_keys = [''symbol'', ''title'', ''description'', ''url'', ''published_at'', ''source'']"

definition enrichment_keys :: "string list" where
  "enrichment_keys = [''summary'', ''sentiment'', ''topic'']"

definition required_keys :: "string list" where
  "required_keys = [''symbol'', ''title'', ''description'', ''url'', ''published_at'', ''source'',
     ''summary'', ''sentiment'', ''topic'']"

text \<open>A fetched article whose title and description are one space each.\<close>

definition ARTICLE_BLANK :: article where
  "ARTICLE_BLANK = [(''symbol'', PyStr ''AAPL''), (''title'', PyStr '' ''),
     (''description'', PyStr '' ''), (''url'', PyStr ''http://a.com/2''),
     (''published_at'', PyStr ''2024-01-01T12:00:00Z''), (''source'', PyStr ''TestFeed'')]"

definition MOCK_RAW_ARTICLE_POSITIVE :: article where
  "MOCK_RAW_ARTICLE_POSITIVE = [(''symbol'', PyStr ''TESTP''), (''title'', PyStr ''Good News Inc.''),
     (''description'', PyStr ''Profits soar unexpectedly.''), (''url'', PyStr ''http://test.com/pos''),
     (''published_at'', PyStr ''2024-01-01T12:00:00Z''), (''source'', PyStr ''TestFeed'')]"

section \<open>Notification trigger (main.py, trigger_alert_if_needed)\<close>

text \<open>
  One invocation of \<open>send_slack_alert\<close>: the fallback text and the attachment with its
  colour and its four blocks. \<open>trigger_alert_if_needed\<close> returns the invocations it
  makes, none or one.
\<close>

record slack_call =
  fallback_text :: string
  color :: string
  header :: string
  section_fields :: "string list"
  title_section :: string
  summary_section :: string

definition trigger_alert_if_needed :: "article \<Rightarrow> slack_call list" where
  "trigger_alert_if_needed article =
     (let sentiment = dict_get article ''sentiment''
      in if truthy sentiment \<and> sentiment \<in> set [PyStr ''Positive'', PyStr ''Negative''] then
           (let title = py_format (dict_get_default article ''title'' ''N/A'');
                summary = py_format (dict_get_default article ''summary'' ''N/A'');
                topic = py_format (dict_get_default article ''topic'' ''N/A'');
                url = py_format (dict_get_default article ''url'' ''#'');
                symbol = py_format (dict_get_default article ''symbol'' ''N/A'');
                source = py_format (dict_get_default article ''source'' ''N/A'');
                published_at = py_format (dict_get_default article ''published_at'' ''N/A'')
            in [\<lparr>fallback_text = ''['' @ py_format sentiment @ ''] '' @ symbol @ '' ('' @ topic @ ''): ''
                    @ title @ '' - '' @ url,
                  color = (if sentiment = PyStr ''Positive'' then ''#36a64f'' else ''#ff0000''),
                  header = py_format sentiment @ '' Sentiment Alert: '' @ symbol @ '' ('' @ topic @ '')'',
                  section_fields = [''*Symbol:*'' @ [CHR 0x0A] @ symbol,
                            ''*Detected Topic:*'' @ [CHR 0x0A] @ topic,
                            ''*Source:*'' @ [CHR 0x0A] @ source,
                            ''*Published:*'' @ [CHR 0x0A] @ published_at],
                  title_section = ''*Title:*'' @ [CHR 0x0A] @ ''<'' @ url @ ''|'' @ title @ ''>'',
                  summary_section = ''*Summary:*'' @ [CHR 0x0A] @ summary\<rparr>])
         else [])"

text \<open>
  \<open>send_slack_alert\<close> (alerting_service.py) reports whether the delivery succeeded and
  raises nothing: without a configured webhook it returns \<open>False\<close>, and it catches what
  the webhook client raises.
\<close>

definition send_slack_alert :: "(slack_call \<Rightarrow> exn + nat) option \<Rightarrow> slack_call \<Rightarrow> bool" where
  "send_slack_alert webhook_client call =
     (case webhook_client of
        None \<Rightarrow> False
      | Some send \<Rightarrow> (case send call of Inl e \<Rightarrow> False | Inr status_code \<Rightarrow> status_code = 200))"

definition with_sentiment :: "pyval \<Rightarrow> article \<Rightarrow> article" where
  "with_sentiment v article = AList.update ''sentiment'' v article"

definition alerting :: "article \<Rightarrow> bool" where
  "alerting article =
     (dict_get article ''sentiment'' = PyStr ''Positive'' \<or> dict_get article ''sentiment'' = PyStr ''Negative'')"

section \<open>Persistence sink (main.py, save_processed_article)\<close>

text \<open>
  \<open>json.dump(article, f, ensure_ascii=False)\<close> followed by a newline. The file is the
  list of its lines. When the file cannot be written, the error is logged and the file is
  left as it was.
\<close>

definition hex_digit :: "nat \<Rightarrow> char" where
  "hex_digit n = ''0123456789abcdef'' ! (n mod 16)"

definition json_escape_char :: "char \<Rightarrow> string" where
  "json_escape_char c =
     (if c = CHR 0x22 then [CHR 0x5C, CHR 0x22]
      else if c = CHR 0x5C then [CHR 0x5C, CHR 0x5C]
      else if c = CHR 0x0A then [CHR 0x5C, CHR ''n'']
      else if c = CHR 0x0D then [CHR 0x5C, CHR ''r'']
      else if c = CHR 0x09 then [CHR 0x5C, CHR ''t'']
      else if c = CHR 0x08 then [CHR 0x5C, CHR ''b'']
      else if c = CHR 0x0C then [CHR 0x5C, CHR ''f'']
      else if (of_char c :: nat) < 32 then
        [CHR 0x5C, CHR ''u'', CHR ''0'', CHR ''0'', hex_digit ((of_char c :: nat) div 16),
         hex_digit (of_char c :: nat)]
      else [c])"

definition json_string :: "string \<Rightarrow> string" where
  "json_string s = [CHR 0x22] @ concat (map json_escape_char s) @ [CHR 0x22]"

fun json_value :: "pyval \<Rightarrow> string" where
  "json_value PyNone = ''null''"
| "json_value (PyStr s) = json_string s"

fun json_items :: "article \<Rightarrow> string" where
  "json_items [] = []"
| "json_items [(k, v)] = json_string k @ '': '' @ json_value v"
| "json_items ((k, v) # kvs) = json_string k @ '': '' @ json_value v @ '', '' @ json_items kvs"

definition json_dumps :: "article \<Rightarrow> string" where
  "json_dumps article = ''{'' @ json_items article @ ''}''"

definition save_processed_article :: "bool \<Rightarrow> article \<Rightarrow> string list \<Rightarrow> string list" where
  "save_processed_article writable article file_lines =
     (if writable then file_lines @ [json_dumps article] else file_lines)"

section \<open>News retrieval (news_fetcher.py)\<close>

text \<open>
  What one request to the news API comes to: \<open>client.get\<close>,
  \<open>response.raise_for_status()\<close> or \<open>response.json()\<close> raises, or the body is read.
  A body has status \<open>ok\<close> with its list of articles, status \<open>error\<close> with code and
  message, or another status. In an article of the body the field \<open>source\<close> is absent,
  \<open>null\<close>, or an object with a name.
\<close>

datatype source_field = SourceAbsent | SourceNull | SourceObj pyval

record api_article =
  api_title :: pyval
  api_description :: pyval
  api_url :: pyval
  api_publishedAt :: pyval
  api_source :: source_field

datatype api_data = StatusOk "api_article list" | StatusError pyval pyval | StatusOther pyval

datatype http_outcome = Raises exn | Body api_data

definition raw_article :: "string \<Rightarrow> api_article \<Rightarrow> pyval \<Rightarrow> article" where
  "raw_article symbol a source_name =
     [(''symbol'', PyStr symbol), (''title'', api_title a), (''description'', api_description a),
      (''url'', api_url a), (''published_at'', api_publishedAt a), (''source'', source_name)]"

text \<open>
  The extraction loop appends to \<open>articles_list\<close>. \<open>article.get("source", {}).get("name")\<close>
  raises \<open>AttributeError\<close> on a \<open>null\<close> source; the handler of
  \<open>fetch_news_for_symbol\<close> catches it and the function returns the articles appended so
  far.
\<close>

fun extract_articles :: "string \<Rightarrow> api_article list \<Rightarrow> article list \<Rightarrow> article list" where
  "extract_articles symbol [] articles_list = articles_list"
| "extract_articles symbol (a # rest) articles_list =
     (case api_source a of
        SourceNull \<Rightarrow> articles_list
      | SourceAbsent \<Rightarrow> extract_articles symbol rest (articles_list @ [raw_article symbol a PyNone])
      | SourceObj name \<Rightarrow> extract_articles symbol rest (articles_list @ [raw_article symbol a name]))"

definition fetch_news_for_symbol :: "string \<Rightarrow> http_outcome \<Rightarrow> article list" where
  "fetch_news_for_symbol symbol outcome =
     (case outcome of
        Raises e \<Rightarrow> []
      | Body data \<Rightarrow>
          (case data of
             StatusOk articles \<Rightarrow> extract_articles symbol articles []
           | StatusError code message \<Rightarrow> []
           | StatusOther status \<Rightarrow> []))"

text \<open>
  \<open>fetch_news_for_watchlist\<close> gathers one task per symbol with
  \<open>return_exceptions=True\<close>; \<open>fetch\<close> gives, for a symbol, the list its task returned or
  the exception it raised. The loop over the results extends \<open>all_articles\<close> with the
  lists and logs the exceptions.
\<close>

fun collect_results :: "(exn + article list) list \<Rightarrow> article list \<Rightarrow> article list" where
  "collect_results [] all_articles = all_articles"
| "collect_results (Inr result # results) all_articles = collect_results results (all_articles @ result)"
| "collect_results (Inl e # results) all_articles = collect_results results all_articles"

definition fetch_news_for_watchlist ::
  "pyval \<Rightarrow> string list \<Rightarrow> (string \<Rightarrow> exn + article list) \<Rightarrow> article list" where
  "fetch_news_for_watchlist api_key watchlist fetch =
     (if \<not> truthy api_key then []
      else if watchlist = [] then []
      else collect_results (map fetch watchlist) [])"

text \<open>The per-symbol task as the agent runs it: it never raises.\<close>

definition fetch_task :: "(string \<Rightarrow> http_outcome) \<Rightarrow> string \<Rightarrow> exn + article list" where
  "fetch_task http symbol = Inr (fetch_news_for_symbol symbol (http symbol))"


definition contribution :: "(string \<Rightarrow> exn + article list) \<Rightarrow> string \<Rightarrow> article list" where
  "contribution fetch symbol = (case fetch symbol of Inl e \<Rightarrow> [] | Inr result \<Rightarrow> result)"

section \<open>Cycle orchestrator (main.py, main_agent_loop)\<close>

definition FETCH_INTERVAL_SECONDS :: real where
  "FETCH_INTERVAL_SECONDS = 15 * 60"

definition PROCESS_BATCH_SIZE :: nat where
  "PROCESS_BATCH_SIZE = 5"

text \<open>
  Times are real numbers, \<open>elapsed_time\<close> the difference of the two readings of the
  monotonic clock.
\<close>

definition sleep_time :: "real \<Rightarrow> real" where
  "sleep_time elapsed_time = max 0 (FETCH_INTERVAL_SECONDS - elapsed_time)"

text \<open>
  The batching loop, \<open>for i in range(0, len(filtered_articles), PROCESS_BATCH_SIZE)\<close>: each
  batch is gathered and its results extend \<open>processed_articles\<close>.
\<close>

function process_batches :: "(article \<Rightarrow> article) \<Rightarrow> article list \<Rightarrow> nat \<Rightarrow> article list" where
  "process_batches process filtered_articles i =
     (if i < length filtered_articles then
        map process (take PROCESS_BATCH_SIZE (drop i filtered_articles))
          @ process_batches process filtered_articles (i + PROCESS_BATCH_SIZE)
      else [])"
  by pat_completeness auto
termination
  by (relation "measure (\<lambda>(process, filtered_articles, i). length filtered_articles - i)")
     (auto simp: PROCESS_BATCH_SIZE_def)

declare process_batches.simps [simp del]

text \<open>
  What the collaborators do during one cycle, and what the cycle leaves behind: the
  exception the cycle boundary caught (if any), the alert invocations, the records handed
  to the persistence sink, and the time slept.
\<close>

record collaborators =
  news_api_key :: pyval
  watchlist :: "string list"
  fetch :: "string \<Rightarrow> exn + article list"
  summarize :: "string \<Rightarrow> exn + pyval"
  sentiment_of :: "string \<Rightarrow> exn + pyval"
  topic_of :: "string \<Rightarrow> exn + pyval"
  elapsed_time :: real

record cycle_result =
  caught :: "exn option"
  alerts :: "slack_call list"
  saved :: "article list"
  slept :: real

text \<open>
  The body of the \<open>try\<close> of one cycle. The progress line printed for each processed
  article slices its title (\<open>article.get('title')[:30]\<close>), which raises on \<open>None\<close>;
  the alert and save tasks are gathered only after that loop.
\<close>

definition cycle_body :: "collaborators \<Rightarrow> exn + slack_call list \<times> article list" where
  "cycle_body c =
     (let raw_articles = fetch_news_for_watchlist (news_api_key c) (watchlist c) (fetch c)
      in case filter_articles raw_articles of
           Inl e \<Rightarrow> Inl e
         | Inr filtered_articles \<Rightarrow>
             if filtered_articles \<noteq> [] then
               (let processed_articles =
                      process_batches (process_single_article (summarize c) (sentiment_of c) (topic_of c))
                        filtered_articles 0
                in if \<exists>article \<in> set processed_articles. dict_get article ''title'' = PyNone
                   then Inl (TypeError not_subscriptable)
                   else Inr (concat (map trigger_alert_if_needed processed_articles), processed_articles))
             else Inr ([], []))"

definition run_cycle :: "collaborators \<Rightarrow> cycle_result" where
  "run_cycle c =
     (case cycle_body c of
        Inl e \<Rightarrow> \<lparr>caught = Some e, alerts = [], saved = [], slept = sleep_time (elapsed_time c)\<rparr>
      | Inr r \<Rightarrow> \<lparr>caught = None, alerts = fst r, saved = snd r, slept = sleep_time (elapsed_time c)\<rparr>)"



text \<open>
  The agent as main.py wires it: the per-symbol tasks of news_fetcher.py on the answers
  \<open>http\<close> of the news API, and the three calls of llm_service.py on one service.
\<close>

definition agent :: "llm_service \<Rightarrow> (string \<Rightarrow> http_outcome) \<Rightarrow> pyval \<Rightarrow> string list \<Rightarrow> real \<Rightarrow> collaborators" where
  "agent svc http api_key symbols elapsed =
     \<lparr>news_api_key = api_key, watchlist = symbols, fetch = fetch_task http,
      summarize = (\<lambda>t. Inr (summarize_text svc t)),
      sentiment_of = (\<lambda>t. Inr (analyze_sentiment svc t)),
      topic_of = (\<lambda>t. Inr (extract_topic svc t)),
      elapsed_time = elapsed\<rparr>"

text \<open>A news API that answers every symbol with one article whose title and description are blank.\<close>

definition blank_http :: "string \<Rightarrow> http_outcome" where
  "blank_http symbol = Body (StatusOk [\<lparr>api_title = PyStr '' '', api_description = PyStr '' '',
     api_url = PyStr ''http://a.com/2'', api_publishedAt = PyStr ''2024-01-01T12:00:00Z'',
     api_source = SourceObj (PyStr ''TestFeed'')\<rparr>])"

definition blank_cycle :: collaborators where
  "blank_cycle = agent bullish_service blank_http (PyStr ''0123456789abcdef'') [''AAPL''] 130.5"

text \<open>A news API that answers every symbol with the positive article of the integration test.\<close>

definition good_news_http :: "string \<Rightarrow> http_outcome" where
  "good_news_http symbol = Body (StatusOk [\<lparr>api_title = PyStr ''Good News Inc.'',
     api_description = PyStr ''Profits soar unexpectedly.'',
     api_url = PyStr ''http://test.com/pos'', api_publishedAt = PyNone,
     api_source = SourceAbsent\<rparr>])"

definition GOOD_NEWS_RAW :: article where
  "GOOD_NEWS_RAW = [(''symbol'', PyStr ''TESTP''), (''title'', PyStr ''Good News Inc.''),
     (''description'', PyStr ''Profits soar unexpectedly.''), (''url'', PyStr ''http://test.com/pos''),
     (''published_at'', PyNone), (''source'', PyNone)]"

definition GOOD_NEWS_ENRICHED :: article where
  "GOOD_NEWS_ENRICHED = [(''symbol'', PyStr ''TESTP''), (''title'', PyStr ''Good News Inc.''),
     (''description'', PyStr ''Profits soar unexpectedly.''), (''url'', PyStr ''http://test.com/pos''),
     (''published_at'', PyNone), (''source'', PyNone), (''summary'', PyNone),
     (''sentiment'', PyStr ''Positive''), (''topic'', PyStr ''Earnings Report'')]"

definition good_news_cycle :: collaborators where
  "good_news_cycle = agent no_summary_service good_news_http (PyStr ''0123456789abcdef'') [''TESTP''] 950"

section \<open>The filter: lemmas\<close>

lemmas filter_examples = ARTICLE_VALID_1_def ARTICLE_VALID_2_def ARTICLE_DUPLICATE_URL_def
  ARTICLE_MISSING_URL_def ARTICLE_MISSING_TITLE_def ARTICLE_EMPTY_TITLE_def
  ARTICLE_EMPTY_TITLE_SAME_URL_def ARTICLE_NO_TITLE_KEY_def ARTICLE_MISSING_DESC_def
  ARTICLE_EMPTY_DESC_def

lemma filter_loop_append:
  "filter_loop (xs @ ys) st =
     (case filter_loop xs st of Inl e \<Rightarrow> Inl e | Inr st' \<Rightarrow> filter_loop ys st')"
  by (induction xs arbitrary: st) (auto split: sum.splits)

text \<open>One iteration on an article whose title can be sliced.\<close>

lemma filter_step_ok:
  assumes "dict_get a ''title'' \<noteq> PyNone"
  shows "filter_step a (fl, seen) =
     Inr (if has_content a \<and> dict_get a ''url'' \<notin> seen then fl @ [a] else fl,
          if has_content a \<and> dict_get a ''url'' \<notin> seen \<and> truthy (dict_get a ''url'')
          then insert (dict_get a ''url'') seen else seen)"
  using assms
  by (cases "dict_get a ''title''") (auto simp: filter_step_def has_content_def Let_def)

lemma retained_append:
  "i < length xs \<Longrightarrow> retained (xs @ [a]) i = retained xs i"
  by (auto simp: retained_def nth_append)

lemma seen_after_snoc:
  "seen_after (xs @ [a]) =
     (if has_content a \<and> truthy (dict_get a ''url'') then insert (dict_get a ''url'') (seen_after xs)
      else seen_after xs)"
  unfolding seen_after_def by (simp only: set_append) auto

lemma retained_last:
  "retained (xs @ [a]) (length xs) = (has_content a \<and> dict_get a ''url'' \<notin> seen_after xs)"
proof -
  have "(\<forall>j<length xs. has_content ((xs @ [a]) ! j) \<longrightarrow> dict_get ((xs @ [a]) ! j) ''url'' \<noteq> u)
      = (\<forall>b\<in>set xs. has_content b \<longrightarrow> dict_get b ''url'' \<noteq> u)" for u
    by (simp add: all_set_conv_all_nth nth_append)
  then show ?thesis
    unfolding retained_def seen_after_def by (simp add: nth_append)
qed

text \<open>
  The loop invariant, by induction on the prefix already read: the list holds the
  retained articles of the prefix in order, the set the non-empty urls of its articles
  with content.
\<close>

lemma filter_loop_retained:
  assumes "\<forall>a\<in>set xs. dict_get a ''title'' \<noteq> PyNone"
  shows "filter_loop xs ([], {}) =
     Inr (map (\<lambda>i. xs ! i) (filter (retained xs) [0..<length xs]), seen_after xs)"
  using assms
proof (induction xs rule: rev_induct)
  case Nil
  show ?case by (simp add: seen_after_def)
next
  case (snoc a xs)
  have prev: "filter_loop xs ([], {}) =
     Inr (map (\<lambda>i. xs ! i) (filter (retained xs) [0..<length xs]), seen_after xs)"
    using snoc by simp
  have ta: "dict_get a ''title'' \<noteq> PyNone" using snoc.prems by simp
  have f: "filter (retained (xs @ [a])) [0..<length xs] = filter (retained xs) [0..<length xs]"
    by (rule filter_cong) (auto simp: retained_append)
  have m: "map (\<lambda>i. (xs @ [a]) ! i) (filter (retained xs) [0..<length xs])
         = map (\<lambda>i. xs ! i) (filter (retained xs) [0..<length xs])"
    by (rule map_cong) (auto simp: nth_append)
  have in_seen: "dict_get a ''url'' \<in> seen_after xs \<Longrightarrow> truthy (dict_get a ''url'')"
    by (simp add: seen_after_def)
  show ?case
  proof (cases "has_content a \<and> dict_get a ''url'' \<notin> seen_after xs")
    case True
    then show ?thesis
      by (simp add: filter_loop_append prev filter_step_ok [OF ta] f m retained_last seen_after_snoc)
  next
    case False
    then show ?thesis
      using in_seen
      by (auto simp add: filter_loop_append prev filter_step_ok [OF ta] f m retained_last
            seen_after_snoc insert_absorb)
  qed
qed

text \<open>Whatever the filter returns has content.\<close>

lemma filter_step_content:
  assumes "filter_step a st = Inr st'" and "\<forall>b\<in>set (fst st). has_content b"
  shows "\<forall>b\<in>set (fst st'). has_content b"
  using assms
  by (auto simp: filter_step_def Let_def has_content_def split: if_splits pyval.splits)

lemma filter_loop_content:
  assumes "filter_loop xs st = Inr st'" and "\<forall>b\<in>set (fst st). has_content b"
  shows "\<forall>b\<in>set (fst st'). has_content b"
  using assms
proof (induction xs arbitrary: st)
  case Nil
  then show ?case by simp
next
  case (Cons a xs)
  from Cons.prems(1) obtain st1
    where s1: "filter_step a st = Inr st1" and r: "filter_loop xs st1 = Inr st'"
    by (auto split: sum.splits)
  from filter_step_content [OF s1 Cons.prems(2)] have "\<forall>b\<in>set (fst st1). has_content b" .
  from Cons.IH [OF r this] show ?case .
qed

lemma filter_articles_content:
  assumes "filter_articles xs = Inr ys"
  shows "\<forall>b\<in>set ys. has_content b"
proof -
  from assms obtain st where l: "filter_loop xs ([], {}) = Inr st" and y: "ys = fst st"
    by (auto simp: filter_articles_def split: sum.splits)
  from filter_loop_content [OF l] y show ?thesis by simp
qed

section \<open>The filter: claims\<close>

text \<open>
  Claim C1, as amended. When every title can be sliced, \<open>filter_articles\<close> returns the
  articles at the retained positions, in the order of the input: an article is retained
  when it has content and, if its url is non-empty, no earlier article with content has
  the same url. So among the articles with content the first occurrence of a non-empty
  url is kept and every later one is dropped, and an article with content whose url is
  empty or absent is never dropped.
\<close>

theorem filter_articles_dedup:
  assumes "\<forall>a\<in>set xs. dict_get a ''title'' \<noteq> PyNone"
  shows "filter_articles xs = Inr (map (\<lambda>i. xs ! i) (filter (retained xs) [0..<length xs]))"
  by (simp add: filter_articles_def filter_loop_retained [OF assms])

theorem filter_articles_dedup_witness:
  "filter_articles [ARTICLE_VALID_1, ARTICLE_VALID_2, ARTICLE_DUPLICATE_URL, ARTICLE_MISSING_URL]
     = Inr [ARTICLE_VALID_1, ARTICLE_VALID_2, ARTICLE_MISSING_URL]"
  using filter_articles_dedup
    [of "[ARTICLE_VALID_1, ARTICLE_VALID_2, ARTICLE_DUPLICATE_URL, ARTICLE_MISSING_URL]"]
  by (simp add: retained_def has_content_def dict_get_def filter_examples upt_rec All_less_Suc)

text \<open>
  Claim C1 as stated fails: the first article carrying a url has an empty title and is
  dropped by the content check before its url is recorded, so the output holds the later
  occurrence of that url and not the first.
\<close>

theorem filter_articles_first_occurrence_counterexample:
  "filter_articles [ARTICLE_EMPTY_TITLE_SAME_URL, ARTICLE_VALID_1] = Inr [ARTICLE_VALID_1]
   \<and> dict_get ARTICLE_EMPTY_TITLE_SAME_URL ''url'' = dict_get ARTICLE_VALID_1 ''url''
   \<and> truthy (dict_get ARTICLE_VALID_1 ''url'')
   \<and> ARTICLE_EMPTY_TITLE_SAME_URL \<noteq> ARTICLE_VALID_1"
  by (simp add: filter_articles_def filter_step_def Let_def dict_get_def filter_examples)

text \<open>
  Claim C2: the filter excludes an article whose title is null. On the list of the unit
  test \<open>test_filter_articles_missing_content\<close>, which expects the two valid articles
  back, the code returns no list: at \<open>ARTICLE_MISSING_TITLE\<close> it raises \<open>TypeError\<close>
  while building the debug message.
\<close>

theorem filter_articles_null_title_raises:
  "filter_articles [ARTICLE_VALID_1, ARTICLE_MISSING_TITLE, ARTICLE_VALID_2, ARTICLE_MISSING_DESC,
      ARTICLE_EMPTY_TITLE, ARTICLE_EMPTY_DESC]
     = Inl (TypeError not_subscriptable)"
  by (simp add: filter_articles_def filter_step_def Let_def dict_get_def filter_examples)

text \<open>
  Claim C3: no exception escapes \<open>filter_articles\<close>. On the list of the unit test
  \<open>test_filter_articles_mixed\<close> the exception escapes, and so it does on an article
  without a \<open>title\<close> key, also after an article that was accepted.
\<close>

theorem filter_articles_exception_escapes:
  "filter_articles [ARTICLE_VALID_1, ARTICLE_MISSING_TITLE, ARTICLE_VALID_2, ARTICLE_DUPLICATE_URL,
      ARTICLE_EMPTY_DESC, ARTICLE_MISSING_URL]
     = Inl (TypeError not_subscriptable)
   \<and> filter_articles [ARTICLE_VALID_1, ARTICLE_NO_TITLE_KEY] = Inl (TypeError not_subscriptable)"
  by (simp add: filter_articles_def filter_step_def Let_def dict_get_def filter_examples)

section \<open>Dictionary lemmas\<close>

lemma dict_get_update:
  "dict_get (AList.update k v a) k' = (if k' = k then v else dict_get a k')"
  by (simp add: dict_get_def update_conv')

lemma dict_get_delete:
  "dict_get (AList.delete k a) k = PyNone"
  by (simp add: dict_get_def delete_conv')

section \<open>Notification trigger: claims\<close>

lemma trigger_alerting:
  "trigger_alert_if_needed a = [] \<longleftrightarrow> \<not> alerting a"
  by (auto simp: trigger_alert_if_needed_def alerting_def Let_def)

lemma trigger_length:
  "length (trigger_alert_if_needed a) = (if alerting a then 1 else 0)"
  by (auto simp: trigger_alert_if_needed_def alerting_def Let_def)

lemma trigger_count:
  "length (concat (map trigger_alert_if_needed as)) = length (filter alerting as)"
  by (induction as) (simp_all add: trigger_length)

text \<open>
  Claim C4. \<open>trigger_alert_if_needed\<close> invokes \<open>send_slack_alert\<close> exactly when the
  sentiment of the article is the string \<open>Positive\<close> or the string \<open>Negative\<close>, and then
  once; a list of articles yields as many invocations as it has such articles. There is
  no invocation for \<open>Neutral\<close>, for a sentiment that is \<open>None\<close> or absent, or for an
  error marker.
\<close>

theorem trigger_alert_sentiment_gating:
  "(trigger_alert_if_needed a \<noteq> []) = alerting a
   \<and> length (trigger_alert_if_needed a) = (if alerting a then 1 else 0)
   \<and> length (concat (map trigger_alert_if_needed as)) = length (filter alerting as)
   \<and> trigger_alert_if_needed (with_sentiment (PyStr ''Neutral'') a) = []
   \<and> trigger_alert_if_needed (with_sentiment PyNone a) = []
   \<and> trigger_alert_if_needed (AList.delete ''sentiment'' a) = []
   \<and> trigger_alert_if_needed (with_sentiment (PyStr (''Error: '' @ cause)) a) = []"
proof -
  have "\<not> alerting (with_sentiment (PyStr ''Neutral'') a)"
    and "\<not> alerting (with_sentiment PyNone a)"
    and "\<not> alerting (AList.delete ''sentiment'' a)"
    and "\<not> alerting (with_sentiment (PyStr (''Error: '' @ cause)) a)"
    by (simp_all add: alerting_def with_sentiment_def dict_get_update dict_get_delete)
  then show ?thesis
    using trigger_alerting trigger_length trigger_count by simp
qed

theorem trigger_alert_sentiment_gating_witness:
  "length (concat (map trigger_alert_if_needed
      [with_sentiment (PyStr ''Positive'') MOCK_RAW_ARTICLE_POSITIVE,
       with_sentiment (PyStr ''Neutral'') MOCK_RAW_ARTICLE_POSITIVE,
       with_sentiment (PyStr ''Negative'') MOCK_RAW_ARTICLE_POSITIVE,
       with_sentiment PyNone MOCK_RAW_ARTICLE_POSITIVE,
       MOCK_RAW_ARTICLE_POSITIVE])) = 2"
proof -
  let ?as = "[with_sentiment (PyStr ''Positive'') MOCK_RAW_ARTICLE_POSITIVE,
       with_sentiment (PyStr ''Neutral'') MOCK_RAW_ARTICLE_POSITIVE,
       with_sentiment (PyStr ''Negative'') MOCK_RAW_ARTICLE_POSITIVE,
       with_sentiment PyNone MOCK_RAW_ARTICLE_POSITIVE,
       MOCK_RAW_ARTICLE_POSITIVE]"
  have "length (concat (map trigger_alert_if_needed ?as)) = length (filter alerting ?as)"
    using trigger_alert_sentiment_gating [of MOCK_RAW_ARTICLE_POSITIVE ?as] by blast
  moreover have "length (filter alerting ?as) = 2"
    by (simp add: alerting_def with_sentiment_def dict_get_def MOCK_RAW_ARTICLE_POSITIVE_def)
  ultimately show ?thesis by (simp only:)
qed

section \<open>Sleep arithmetic: claim\<close>

text \<open>
  Claim C7. The interval is 900 seconds; the time slept at the end of a cycle is
  \<open>max 0 (interval - elapsed)\<close>: 769.5 for an elapsed time of 130.5, zero for every
  elapsed time of at least the interval, and never negative.
\<close>

theorem sleep_time_arithmetic:
  "FETCH_INTERVAL_SECONDS = 900
   \<and> sleep_time 130.5 = 769.5
   \<and> (FETCH_INTERVAL_SECONDS \<le> elapsed \<longrightarrow> sleep_time elapsed = 0)
   \<and> 0 \<le> sleep_time elapsed
   \<and> slept (run_cycle c) = max 0 (FETCH_INTERVAL_SECONDS - elapsed_time c)"
  by (simp add: sleep_time_def FETCH_INTERVAL_SECONDS_def run_cycle_def split: sum.splits)

theorem sleep_time_arithmetic_witness:
  "FETCH_INTERVAL_SECONDS \<le> 950 \<and> sleep_time 950 = 0"
  using sleep_time_arithmetic [of 950] by (simp add: FETCH_INTERVAL_SECONDS_def)

section \<open>Enrichment client: claims\<close>

lemmas string_ops = strip_def isspace_def to_upper_def to_lower_def sentiment_labels_def

lemma prompts_differ:
  "sentiment_system_prompt \<noteq> summarize_system_prompt"
  "topic_system_prompt \<noteq> summarize_system_prompt"
  "topic_system_prompt \<noteq> sentiment_system_prompt"
  by (simp_all add: sentiment_system_prompt_def summarize_system_prompt_def topic_system_prompt_def)

lemma analyze_sentiment_answer:
  assumes "client svc = Some invoke"
    and "invoke sentiment_system_prompt (sentiment_user_prompt txt) = Inr content"
  shows "analyze_sentiment svc txt =
     (if capitalize (strip content) \<in> set sentiment_labels then PyStr (capitalize (strip content))
      else PyNone)"
  using assms
  by (cases "content = []")
     (simp_all add: analyze_sentiment_def generate_response_def Let_def strip_def sentiment_labels_def)

lemma analyze_sentiment_failure:
  assumes "client svc = Some invoke"
    and "invoke sentiment_system_prompt (sentiment_user_prompt txt) = Inl e"
  shows "analyze_sentiment svc txt = PyNone"
  using assms by (simp add: analyze_sentiment_def generate_response_def)

lemma analyze_sentiment_range:
  "analyze_sentiment svc txt \<in> {PyNone, PyStr ''Positive'', PyStr ''Negative'', PyStr ''Neutral''}"
  by (auto simp: analyze_sentiment_def Let_def sentiment_labels_def split: option.splits)

text \<open>
  Claim C5, as amended. \<open>analyze_sentiment\<close> returns one of the three labels or
  \<open>None\<close> and raises nothing. When the backend answers, the answer is trimmed and
  capitalized, and the result is that label if it is one of the three and \<open>None\<close>
  otherwise. When the invocation of the backend fails, or no client is configured, the
  result is \<open>None\<close> as well.
\<close>

theorem analyze_sentiment_outcomes:
  "analyze_sentiment svc txt \<in> {PyNone, PyStr ''Positive'', PyStr ''Negative'', PyStr ''Neutral''}
   \<and> (client svc = None \<longrightarrow> analyze_sentiment svc txt = PyNone)
   \<and> (\<forall>invoke e. client svc = Some invoke
          \<and> invoke sentiment_system_prompt (sentiment_user_prompt txt) = Inl e
        \<longrightarrow> analyze_sentiment svc txt = PyNone)
   \<and> (\<forall>invoke content. client svc = Some invoke
          \<and> invoke sentiment_system_prompt (sentiment_user_prompt txt) = Inr content
        \<longrightarrow> analyze_sentiment svc txt =
             (if capitalize (strip content) \<in> set sentiment_labels
              then PyStr (capitalize (strip content)) else PyNone))"
  using analyze_sentiment_range analyze_sentiment_failure analyze_sentiment_answer
  by (simp add: analyze_sentiment_def)

theorem analyze_sentiment_outcomes_witness:
  "analyze_sentiment no_summary_service ''Good News Inc.'' = PyStr ''Positive''"
proof -
  have c: "client no_summary_service = Some (\<lambda>system_prompt user_prompt.
     if system_prompt = summarize_system_prompt then Inl (RuntimeError ''429 Resource exhausted'')
     else if system_prompt = sentiment_system_prompt then Inr ('' positive'' @ [CHR 0x0A])
     else Inr ''Earnings Report'')"
    by (simp add: no_summary_service_def)
  have "analyze_sentiment no_summary_service ''Good News Inc.'' =
     (if capitalize (strip ('' positive'' @ [CHR 0x0A])) \<in> set sentiment_labels
      then PyStr (capitalize (strip ('' positive'' @ [CHR 0x0A]))) else PyNone)"
    using analyze_sentiment_outcomes [of no_summary_service "''Good News Inc.''"] c
    by (simp add: prompts_differ)
  then show ?thesis by (simp add: string_ops)
qed

text \<open>
  Claim C5 as stated fails in its second half: a backend whose invocation raises and a
  backend that answers with a word that is no label give the caller the same value.
\<close>

theorem analyze_sentiment_indistinguishable_counterexample:
  "generate_response failing_service sentiment_system_prompt
       (sentiment_user_prompt ''Good News Inc.'') = None
   \<and> generate_response bullish_service sentiment_system_prompt
       (sentiment_user_prompt ''Good News Inc.'') = Some ''Bullish''
   \<and> analyze_sentiment failing_service ''Good News Inc.'' = PyNone
   \<and> analyze_sentiment bullish_service ''Good News Inc.'' = PyNone"
  by (simp add: analyze_sentiment_def generate_response_def failing_service_def bullish_service_def
        Let_def string_ops)

section \<open>Article enricher: claims\<close>

lemma keys_update: "fst ` set (AList.update k v a) = insert k (fst ` set a)"
  by (simp add: dom_update)






text \<open>
  Claim C10. Enrichment leaves every key other than \<open>summary\<close>, \<open>sentiment\<close> and
  \<open>topic\<close> as it was, present with the same value or absent; in particular the six
  fields of the raw article keep their values, and no other key is added.
\<close>

theorem process_single_article_frame:
  "(\<forall>k. k \<notin> set enrichment_keys \<longrightarrow> map_of (process_single_article s1 s2 s3 a) k = map_of a k)
   \<and> (\<forall>k \<in> set raw_keys. dict_get (process_single_article s1 s2 s3 a) k = dict_get a k)
   \<and> fst ` set (process_single_article s1 s2 s3 a) \<subseteq> fst ` set a \<union> set enrichment_keys"
  by (auto simp: process_single_article_def Let_def update_conv' keys_update enrichment_keys_def
        raw_keys_def dict_get_update)

theorem process_single_article_frame_witness:
  "map_of (process_single_article raising_call positive_call earnings_call MOCK_RAW_ARTICLE_POSITIVE)
      ''title'' = Some (PyStr ''Good News Inc.'')
   \<and> dict_get (process_single_article raising_call positive_call earnings_call MOCK_RAW_ARTICLE_POSITIVE)
      ''url'' = PyStr ''http://test.com/pos''"
proof -
  have "map_of (process_single_article raising_call positive_call earnings_call MOCK_RAW_ARTICLE_POSITIVE)
      ''title'' = map_of MOCK_RAW_ARTICLE_POSITIVE ''title''"
    and "dict_get (process_single_article raising_call positive_call earnings_call MOCK_RAW_ARTICLE_POSITIVE)
      ''url'' = dict_get MOCK_RAW_ARTICLE_POSITIVE ''url''"
    using process_single_article_frame [of raising_call positive_call earnings_call MOCK_RAW_ARTICLE_POSITIVE]
    by (simp_all add: enrichment_keys_def raw_keys_def)
  then show ?thesis
    by (simp add: dict_get_def MOCK_RAW_ARTICLE_POSITIVE_def)
qed

section \<open>Fetching, batching and the cycle: lemmas\<close>

lemma process_batches_map:
  "process_batches f xs i = map f (drop i xs)"
proof (induction f xs i rule: process_batches.induct)
  case (1 process filtered_articles i)
  show ?case
  proof (cases "i < length filtered_articles")
    case True
    have "map process (take PROCESS_BATCH_SIZE (drop i filtered_articles))
            @ map process (drop (i + PROCESS_BATCH_SIZE) filtered_articles)
          = map process (take PROCESS_BATCH_SIZE (drop i filtered_articles)
                          @ drop PROCESS_BATCH_SIZE (drop i filtered_articles))"
      by (simp add: add.commute)
    also have "\<dots> = map process (drop i filtered_articles)"
      by (simp only: append_take_drop_id)
    finally show ?thesis
      using True "1.IH" by (subst process_batches.simps) simp
  next
    case False
    then show ?thesis by (subst process_batches.simps) simp
  qed
qed

lemma collect_results_concat:
  "collect_results rs acc = acc @ concat (map (\<lambda>r. case r of Inl e \<Rightarrow> [] | Inr l \<Rightarrow> l) rs)"
proof (induction rs arbitrary: acc)
  case Nil
  show ?case by simp
next
  case (Cons r rs)
  then show ?case by (cases r) simp_all
qed

lemma fetch_news_for_watchlist_concat:
  assumes "truthy key"
  shows "fetch_news_for_watchlist key wl f = concat (map (contribution f) wl)"
proof -
  have "(\<lambda>r. case r of Inl e \<Rightarrow> [] | Inr l \<Rightarrow> l) \<circ> f = contribution f"
    by (rule ext) (simp add: contribution_def)
  then show ?thesis
    using assms by (simp add: fetch_news_for_watchlist_def collect_results_concat)
qed




lemma filter_step_subset:
  assumes "filter_step a st = Inr st'"
  shows "set (fst st') \<subseteq> insert a (set (fst st))"
  using assms
  by (auto simp: filter_step_def Let_def split: if_splits pyval.splits)

lemma filter_loop_subset:
  assumes "filter_loop xs st = Inr st'"
  shows "set (fst st') \<subseteq> set xs \<union> set (fst st)"
  using assms
proof (induction xs arbitrary: st)
  case Nil
  then show ?case by simp
next
  case (Cons a xs)
  from Cons.prems obtain st1
    where s1: "filter_step a st = Inr st1" and r: "filter_loop xs st1 = Inr st'"
    by (auto split: sum.splits)
  from Cons.IH [OF r] filter_step_subset [OF s1] show ?case by auto
qed

lemma filter_articles_subset:
  assumes "filter_articles xs = Inr ys"
  shows "set ys \<subseteq> set xs"
proof -
  from assms obtain st where l: "filter_loop xs ([], {}) = Inr st" and y: "ys = fst st"
    by (auto simp: filter_articles_def split: sum.splits)
  from filter_loop_subset [OF l] y show ?thesis by simp
qed

lemma process_other_key:
  "k \<notin> set enrichment_keys \<Longrightarrow> map_of (process_single_article s1 s2 s3 a) k = map_of a k"
  by (auto simp: process_single_article_def Let_def update_conv' enrichment_keys_def)

lemma process_text:
  "text_to_process (process_single_article s1 s2 s3 a) = text_to_process a"
  by (simp add: text_to_process_def dict_get_default_def process_other_key enrichment_keys_def)

lemma process_has_content:
  "has_content (process_single_article s1 s2 s3 a) = has_content a"
  by (simp add: has_content_def dict_get_def process_other_key enrichment_keys_def)

lemma process_keys:
  "fst ` set a \<subseteq> fst ` set (process_single_article s1 s2 s3 a)"
  by (auto simp: process_single_article_def Let_def keys_update)

lemma process_enrichment_keys:
  "strip (text_to_process a) \<noteq> [] \<Longrightarrow>
     set enrichment_keys \<subseteq> fst ` set (process_single_article s1 s2 s3 a)"
  by (simp add: process_single_article_def Let_def keys_update enrichment_keys_def)

lemma process_blank:
  "strip (text_to_process a) = [] \<Longrightarrow> process_single_article s1 s2 s3 a = a"
  by (simp add: process_single_article_def)

lemma has_content_title: "has_content a \<Longrightarrow> dict_get a ''title'' \<noteq> PyNone"
  by (auto simp: has_content_def)

lemma cycle_body_filtered:
  assumes "filter_articles (fetch_news_for_watchlist (news_api_key c) (watchlist c) (fetch c)) = Inr filtered"
  shows "cycle_body c =
     Inr (concat (map trigger_alert_if_needed
            (map (process_single_article (summarize c) (sentiment_of c) (topic_of c)) filtered)),
          map (process_single_article (summarize c) (sentiment_of c) (topic_of c)) filtered)"
proof (cases "filtered = []")
  case True
  then show ?thesis using assms by (simp add: cycle_body_def)
next
  case False
  let ?P = "process_single_article (summarize c) (sentiment_of c) (topic_of c)"
  have "\<forall>b\<in>set filtered. has_content b"
    using filter_articles_content [OF assms] .
  then have "\<forall>b\<in>set filtered. dict_get (?P b) ''title'' \<noteq> PyNone"
    using has_content_title process_has_content by blast
  then have "\<not> (\<exists>article\<in>set (map ?P filtered). dict_get article ''title'' = PyNone)"
    by simp
  then show ?thesis
    using assms False by (simp add: cycle_body_def process_batches_map)
qed

lemma cycle_body_raises:
  assumes "filter_articles (fetch_news_for_watchlist (news_api_key c) (watchlist c) (fetch c)) = Inl e"
  shows "cycle_body c = Inl e"
  using assms by (simp add: cycle_body_def Let_def)

lemma extract_articles_keys:
  assumes "\<forall>a\<in>set acc. map fst a = raw_keys"
  shows "\<forall>a\<in>set (extract_articles s arts acc). map fst a = raw_keys"
  using assms
proof (induction arts arbitrary: acc)
  case Nil
  then show ?case by simp
next
  case (Cons x arts)
  have k: "map fst (raw_article s x n) = raw_keys" for n
    by (simp add: raw_article_def raw_keys_def)
  show ?case
  proof (cases "api_source x")
    case SourceAbsent
    then show ?thesis using Cons.IH [of "acc @ [raw_article s x PyNone]"] Cons.prems k by simp
  next
    case SourceNull
    then show ?thesis using Cons.prems by simp
  next
    case (SourceObj n)
    then show ?thesis using Cons.IH [of "acc @ [raw_article s x n]"] Cons.prems k by simp
  qed
qed

lemma fetch_news_for_symbol_keys:
  "\<forall>a\<in>set (fetch_news_for_symbol s outcome). map fst a = raw_keys"
proof (cases outcome)
  case (Raises e)
  then show ?thesis by (simp add: fetch_news_for_symbol_def)
next
  case (Body data)
  then show ?thesis
    using extract_articles_keys [of "[]"]
    by (cases data) (simp_all add: fetch_news_for_symbol_def)
qed

lemma fetch_task_keys:
  "\<forall>a\<in>set (fetch_news_for_watchlist key wl (fetch_task http)). map fst a = raw_keys"
proof (cases "truthy key")
  case True
  have c: "contribution (fetch_task http) s = fetch_news_for_symbol s (http s)" for s
    by (simp add: contribution_def fetch_task_def)
  show ?thesis
  proof
    fix a
    assume "a \<in> set (fetch_news_for_watchlist key wl (fetch_task http))"
    then obtain s where "a \<in> set (fetch_news_for_symbol s (http s))"
      by (auto simp: fetch_news_for_watchlist_concat [OF True] c)
    then show "map fst a = raw_keys"
      using fetch_news_for_symbol_keys by blast
  qed
next
  case False
  then show ?thesis by (simp add: fetch_news_for_watchlist_def)
qed


lemma cycle_body_saved:
  assumes "a \<in> set (saved (run_cycle c))"
  obtains filtered r where
    "filter_articles (fetch_news_for_watchlist (news_api_key c) (watchlist c) (fetch c)) = Inr filtered"
    and "r \<in> set filtered"
    and "a = process_single_article (summarize c) (sentiment_of c) (topic_of c) r"
proof (cases "filter_articles (fetch_news_for_watchlist (news_api_key c) (watchlist c) (fetch c))")
  case (Inl e)
  from cycle_body_raises [OF Inl] assms show ?thesis
    by (simp add: run_cycle_def)
next
  case (Inr filtered)
  from cycle_body_filtered [OF Inr] assms
  have "a \<in> process_single_article (summarize c) (sentiment_of c) (topic_of c) ` set filtered"
    by (simp add: run_cycle_def)
  with Inr that show ?thesis by blast
qed

lemma good_news_raw:
  "fetch_news_for_watchlist (news_api_key good_news_cycle) (watchlist good_news_cycle)
     (fetch good_news_cycle) = [GOOD_NEWS_RAW]"
  by (simp add: good_news_cycle_def agent_def fetch_news_for_watchlist_def fetch_task_def
        fetch_news_for_symbol_def good_news_http_def raw_article_def GOOD_NEWS_RAW_def)

lemma good_news_text_not_blank: "strip (text_to_process GOOD_NEWS_RAW) \<noteq> []"
  by (simp add: text_to_process_def dict_get_default_def GOOD_NEWS_RAW_def strip_def isspace_def)

lemma good_news_enriched:
  "process_single_article (summarize good_news_cycle) (sentiment_of good_news_cycle)
     (topic_of good_news_cycle) GOOD_NEWS_RAW = GOOD_NEWS_ENRICHED"
proof -
  have 1: "summarize_text no_summary_service t = PyNone" for t
    by (simp add: summarize_text_def generate_response_def no_summary_service_def)
  have 2: "analyze_sentiment no_summary_service t = PyStr ''Positive''" for t
    by (simp add: analyze_sentiment_def generate_response_def no_summary_service_def prompts_differ
          Let_def string_ops)
  have 3: "extract_topic no_summary_service t = PyStr ''Earnings Report''" for t
    by (simp add: extract_topic_def generate_response_def no_summary_service_def prompts_differ
          string_ops)
  have "process_single_article (summarize good_news_cycle) (sentiment_of good_news_cycle)
     (topic_of good_news_cycle) GOOD_NEWS_RAW
     = AList.update ''topic'' (PyStr ''Earnings Report'')
         (AList.update ''sentiment'' (PyStr ''Positive'')
            (AList.update ''summary'' PyNone GOOD_NEWS_RAW))"
    using good_news_text_not_blank
    by (simp add: process_single_article_def Let_def good_news_cycle_def agent_def 1 2 3 merge_field_def)
  then show ?thesis
    by (simp add: GOOD_NEWS_RAW_def GOOD_NEWS_ENRICHED_def)
qed

lemma good_news_saved: "saved (run_cycle good_news_cycle) = [GOOD_NEWS_ENRICHED]"
proof -
  have "filter_articles [GOOD_NEWS_RAW] = Inr [GOOD_NEWS_RAW]"
    by (simp add: filter_articles_def filter_step_def Let_def dict_get_def GOOD_NEWS_RAW_def)
  then have "filter_articles (fetch_news_for_watchlist (news_api_key good_news_cycle)
      (watchlist good_news_cycle) (fetch good_news_cycle)) = Inr [GOOD_NEWS_RAW]"
    by (simp add: good_news_raw)
  from cycle_body_filtered [OF this] show ?thesis
    by (simp add: run_cycle_def good_news_enriched)
qed

section \<open>The cycle: claims\<close>



text \<open>
  Claim C8, as amended. Every record the agent hands to the persistence sink comes from
  a fetched article that has content, and carries the six keys of the raw article, a
  field the news API left out being \<open>None\<close>. If its text is not blank it carries all
  nine required keys. If its text is blank (title and description consist of white
  space), it is the fetched article unmodified, with the six raw keys only.
\<close>

theorem saved_record_keys:
  assumes "fetch c = fetch_task http" and "a \<in> set (saved (run_cycle c))"
  shows "set raw_keys \<subseteq> fst ` set a
   \<and> has_content a
   \<and> (strip (text_to_process a) \<noteq> [] \<longrightarrow> set required_keys \<subseteq> fst ` set a)
   \<and> (strip (text_to_process a) = [] \<longrightarrow>
         a \<in> set (fetch_news_for_watchlist (news_api_key c) (watchlist c) (fetch c))
         \<and> map fst a = raw_keys)"
proof -
  let ?P = "process_single_article (summarize c) (sentiment_of c) (topic_of c)"
  let ?raw = "fetch_news_for_watchlist (news_api_key c) (watchlist c) (fetch c)"
  from assms(2) obtain filtered r where
    f: "filter_articles ?raw = Inr filtered" and r: "r \<in> set filtered" and a: "a = ?P r"
    by (rule cycle_body_saved)
  have rraw: "r \<in> set ?raw"
    using filter_articles_subset [OF f] r by blast
  have rkeys: "map fst r = raw_keys"
    using fetch_task_keys [of "news_api_key c" "watchlist c" http] rraw assms(1) by simp
  then have "set raw_keys \<subseteq> fst ` set r"
    by (metis set_map subset_refl)
  then have k1: "set raw_keys \<subseteq> fst ` set a"
    using process_keys [of r] a by blast
  have k2: "has_content a"
    using filter_articles_content [OF f] r a by (simp add: process_has_content)
  have t: "text_to_process a = text_to_process r"
    using a by (simp add: process_text)
  have k3: "set required_keys \<subseteq> fst ` set a" if "strip (text_to_process a) \<noteq> []"
  proof -
    from that t have "set enrichment_keys \<subseteq> fst ` set a"
      using process_enrichment_keys [of r] a by simp
    moreover have "set required_keys = set raw_keys \<union> set enrichment_keys"
      by (auto simp: required_keys_def raw_keys_def enrichment_keys_def)
    ultimately show ?thesis using k1 by simp
  qed
  have k4: "a \<in> set ?raw \<and> map fst a = raw_keys"
    if "strip (text_to_process a) = []"
  proof -
    from that t a have "a = r" by (simp add: process_blank)
    then show ?thesis using rraw rkeys by simp
  qed
  from k1 k2 k3 k4 show ?thesis by blast
qed

theorem saved_record_keys_witness:
  "GOOD_NEWS_ENRICHED \<in> set (saved (run_cycle good_news_cycle))
   \<and> strip (text_to_process GOOD_NEWS_ENRICHED) \<noteq> []
   \<and> set required_keys \<subseteq> fst ` set GOOD_NEWS_ENRICHED
   \<and> dict_get GOOD_NEWS_ENRICHED ''published_at'' = PyNone
   \<and> json_value (dict_get GOOD_NEWS_ENRICHED ''published_at'') = ''null''"
proof -
  have f: "fetch good_news_cycle = fetch_task good_news_http"
    by (simp add: good_news_cycle_def agent_def)
  have m: "GOOD_NEWS_ENRICHED \<in> set (saved (run_cycle good_news_cycle))"
    by (simp add: good_news_saved)
  have t: "strip (text_to_process GOOD_NEWS_ENRICHED) \<noteq> []"
    by (simp add: text_to_process_def dict_get_default_def GOOD_NEWS_ENRICHED_def strip_def isspace_def)
  have "set required_keys \<subseteq> fst ` set GOOD_NEWS_ENRICHED"
    using saved_record_keys [OF f m] t by blast
  moreover have "dict_get GOOD_NEWS_ENRICHED ''published_at'' = PyNone"
    by (simp add: dict_get_def GOOD_NEWS_ENRICHED_def)
  ultimately show ?thesis using m t by simp
qed

text \<open>
  Claim C8 as stated fails on the defensive path: an article whose title and description
  are one space each passes the filter, is returned unmodified by the enricher, and
  reaches the sink without the keys \<open>summary\<close>, \<open>sentiment\<close> and \<open>topic\<close>.
\<close>

theorem blank_article_counterexample:
  "saved (run_cycle blank_cycle) = [ARTICLE_BLANK]
   \<and> map fst ARTICLE_BLANK = raw_keys
   \<and> map_of ARTICLE_BLANK ''summary'' = None
   \<and> map_of ARTICLE_BLANK ''sentiment'' = None
   \<and> map_of ARTICLE_BLANK ''topic'' = None"
proof -
  have raw: "fetch_news_for_watchlist (news_api_key blank_cycle) (watchlist blank_cycle)
     (fetch blank_cycle) = [ARTICLE_BLANK]"
    by (simp add: blank_cycle_def agent_def fetch_news_for_watchlist_def fetch_task_def
          fetch_news_for_symbol_def blank_http_def raw_article_def ARTICLE_BLANK_def)
  have "filter_articles [ARTICLE_BLANK] = Inr [ARTICLE_BLANK]"
    by (simp add: filter_articles_def filter_step_def Let_def dict_get_def ARTICLE_BLANK_def)
  then have "filter_articles (fetch_news_for_watchlist (news_api_key blank_cycle)
      (watchlist blank_cycle) (fetch blank_cycle)) = Inr [ARTICLE_BLANK]"
    by (simp add: raw)
  from cycle_body_filtered [OF this]
  have "saved (run_cycle blank_cycle)
     = [process_single_article (summarize blank_cycle) (sentiment_of blank_cycle)
          (topic_of blank_cycle) ARTICLE_BLANK]"
    by (simp add: run_cycle_def)
  moreover have "strip (text_to_process ARTICLE_BLANK) = []"
    by (simp add: text_to_process_def dict_get_default_def ARTICLE_BLANK_def strip_def isspace_def)
  ultimately have "saved (run_cycle blank_cycle) = [ARTICLE_BLANK]"
    by (simp add: process_blank)
  then show ?thesis
    by (simp add: ARTICLE_BLANK_def raw_keys_def)
qed

end
